theory Spec2Isabelle
  imports Complex_Main "HOL-Library.Sublist"
begin

section \<open>Python strings and the regular expressions of the analysers\<close>

text \<open>
  A Python \<open>str\<close> is modelled as a \<open>string\<close>: an ASCII character is itself, any
  other code point is its UTF-8 bytes (all of them above 127). The character classes
  of the source (\<open>[A-Za-z]\<close>, \<open>[A-Za-z'-]\<close>, \<open>[a-z]\<close>, \<open>[.!?]\<close>) are ASCII classes,
  so classifying the bytes classifies the code points, and every token they match is
  pure ASCII, so that \<open>len\<close> of a token is the length of the list. \<open>str.lower\<close> is
  modelled on the ASCII letters, which is all that the classes applied after it
  observe in the words the source passes to it.
\<close>

definition is_upper :: "char \<Rightarrow> bool" where
  "is_upper c = ((65::nat) \<le> of_char c \<and> of_char c \<le> (90::nat))"

definition is_lower :: "char \<Rightarrow> bool" where
  "is_lower c = ((97::nat) \<le> of_char c \<and> of_char c \<le> (122::nat))"

definition is_letter :: "char \<Rightarrow> bool" where
  "is_letter c = (is_upper c \<or> is_lower c)"

definition lower_char :: "char \<Rightarrow> char" where
  "lower_char c = (if is_upper c then char_of (of_char c + (32::nat)) else c)"

definition lower :: "string \<Rightarrow> string" where
  "lower s = map lower_char s"

text \<open>The ASCII part of \<open>str.isspace\<close>, as \<open>str.strip()\<close> and \<open>str.split()\<close> use it
  (tab to carriage return, the four separators 28 to 31, and the space). White space
  outside ASCII is not recognised by the model.\<close>

definition isspace :: "char \<Rightarrow> bool" where
  "isspace c = (let n = (of_char c :: nat) in
     (9 \<le> n \<and> n \<le> 13) \<or> (28 \<le> n \<and> n \<le> 32))"

definition strip :: "string \<Rightarrow> string" where
  "strip s = rev (dropWhile isspace (rev (dropWhile isspace s)))"

text \<open>\<open>re.findall(r'[A-Za-z]+', text)\<close>: the maximal runs of letters, left to right.
  The first argument is the run being read.\<close>

fun findall_letters :: "string \<Rightarrow> string \<Rightarrow> string list" where
  "findall_letters cur [] = (if cur = [] then [] else [cur])"
| "findall_letters cur (c # cs) =
     (if is_letter c then findall_letters (cur @ [c]) cs
      else (if cur = [] then [] else [cur]) @ findall_letters [] cs)"

text \<open>\<open>re.split\<close> on a one-character class, and \<open>str.split(sep)\<close> on a one-character
  separator: every separator ends a piece, empty pieces are kept, so a text with
  \<open>n\<close> separators gives \<open>n + 1\<close> pieces.\<close>

fun split_on :: "(char \<Rightarrow> bool) \<Rightarrow> string \<Rightarrow> string \<Rightarrow> string list" where
  "split_on sep cur [] = [cur]"
| "split_on sep cur (c # cs) =
     (if sep c then cur # split_on sep [] cs else split_on sep (cur @ [c]) cs)"

definition is_sentence_end :: "char \<Rightarrow> bool" where
  "is_sentence_end c = (c = CHR ''.'' \<or> c = CHR ''!'' \<or> c = CHR ''?'')"

section \<open>readability_utils\<close>

text \<open>The exceptions of the model are instances of Python's \<open>Exception\<close>, the class
  that the handlers of the source catch. \<open>RequestException\<close> stands for the exceptions
  of \<open>requests\<close> (its \<open>HTTPError\<close> included), \<open>TimeoutError\<close> for
  \<open>asyncio.TimeoutError\<close>, which is raised without a message, and \<open>Exception\<close> for any
  other one, with its message.\<close>

datatype error =
    ZeroDivisionError
  | KeyError string
  | RequestException string
  | TimeoutError
  | Exception string

text \<open>\<open>str(exc)\<close>: the message of the exception; \<open>KeyError\<close> prints the \<open>repr\<close> of
  its key.\<close>

fun str_exc :: "error \<Rightarrow> string" where
  "str_exc ZeroDivisionError = ''division by zero''"
| "str_exc (KeyError k) = [CHR 0x27] @ k @ [CHR 0x27]"
| "str_exc TimeoutError = []"
| "str_exc (RequestException m) = m"
| "str_exc (Exception m) = m"

text \<open>The loop of \<open>_syllable_count\<close>: the state is \<open>(num_vowels, prev_char_was_vowel)\<close>.\<close>

definition is_vowel :: "char \<Rightarrow> bool" where
  "is_vowel c = (c \<in> set ''aeiouy'')"

definition syllable_step :: "nat \<times> bool \<Rightarrow> char \<Rightarrow> nat \<times> bool" where
  "syllable_step st c =
     (let v = is_vowel c in
      ((if v \<and> \<not> snd st then fst st + 1 else fst st), v))"

definition endswith_e :: "string \<Rightarrow> bool" where
  "endswith_e w = (w \<noteq> [] \<and> last w = CHR ''e'')"

definition syllable_count :: "string \<Rightarrow> nat" where
  "syllable_count word =
     (let w = filter is_lower (lower word);
          num_vowels = fst (foldl syllable_step (0, False) w);
          num_vowels' = (if endswith_e w \<and> num_vowels > 1 then num_vowels - 1 else num_vowels)
      in max 1 num_vowels')"

text \<open>Python's \<open>/\<close> on integers raises \<open>ZeroDivisionError\<close> on a zero divisor. Floats
  are idealised as exact rationals throughout.\<close>

definition py_div :: "nat \<Rightarrow> nat \<Rightarrow> error + rat" where
  "py_div a b = (if b = 0 then Inl ZeroDivisionError else Inr (of_nat a / of_nat b))"

definition words_count_of :: "string \<Rightarrow> nat" where
  "words_count_of text =
     (let ws = findall_letters [] text in if ws \<noteq> [] then length ws else 1)"

definition sentences_count_of :: "string \<Rightarrow> nat" where
  "sentences_count_of text =
     (let n = length (filter (\<lambda>s. strip s \<noteq> []) (split_on is_sentence_end [] text))
      in if n \<noteq> 0 then n else 1)"

definition syllables_count_of :: "string \<Rightarrow> nat" where
  "syllables_count_of text = sum_list (map syllable_count (findall_letters [] text))"

definition flesch_reading_ease_manual :: "string \<Rightarrow> error + rat" where
  "flesch_reading_ease_manual text =
     (let words_count = words_count_of text;
          sentences_count = sentences_count_of text;
          syllables_count = syllables_count_of text
      in case py_div words_count sentences_count of
           Inl e \<Rightarrow> Inl e
         | Inr words_per_sentence \<Rightarrow>
            (case py_div syllables_count words_count of
               Inl e \<Rightarrow> Inl e
             | Inr syllables_per_word \<Rightarrow>
                 Inr (206835 / 1000 - (1015 / 1000) * words_per_sentence
                        - (846 / 10) * syllables_per_word)))"

text \<open>\<open>round(x, 2)\<close>: to the nearest multiple of 1/100, a tie going to the even one
  (the rule of Python's \<open>round\<close> on the exact value of its argument).\<close>

definition round_half_even :: "rat \<Rightarrow> int" where
  "round_half_even q =
     (let f = \<lfloor>q\<rfloor>; d = q - of_int f in
      if d < 1 / 2 then f
      else if 1 / 2 < d then f + 1
      else if even f then f else f + 1)"

definition py_round2 :: "rat \<Rightarrow> rat" where
  "py_round2 x = of_int (round_half_even (x * 100)) / 100"

definition py_round3 :: "rat \<Rightarrow> rat" where
  "py_round3 x = of_int (round_half_even (x * 1000)) / 1000"

record readability_result =
  score :: rat
  level :: string

text \<open>The en dash of two of the labels is written as its three UTF-8 bytes.\<close>

definition en_dash :: string where
  "en_dash = [CHR 0xE2, CHR 0x80, CHR 0x93]"

definition interpret_score :: "rat \<Rightarrow> string" where
  "interpret_score s =
     (if s \<ge> 90 then ''Very easy (5th grade)''
      else if s \<ge> 80 then ''Easy (6th grade)''
      else if s \<ge> 70 then ''Fairly easy''
      else if s \<ge> 60 then ''Standard (8th'' @ en_dash @ ''9th grade)''
      else if s \<ge> 50 then ''Fairly difficult (10th'' @ en_dash @ ''12th grade)''
      else if s \<ge> 30 then ''Difficult (college)''
      else ''Very confusing'')"

text \<open>The library \<open>textstat\<close> is not part of the repository: it is a parameter,
  \<open>None\<close> when the import failed (\<open>_USE_TEXTSTAT = False\<close>), otherwise its
  \<open>flesch_reading_ease\<close>, which returns a score or raises.\<close>

type_synonym textstat = "(string \<Rightarrow> error + rat) option"

definition flesch_score :: "textstat \<Rightarrow> string \<Rightarrow> error + rat" where
  "flesch_score ts text =
     (case ts of
        Some flesch_reading_ease \<Rightarrow>
          (case flesch_reading_ease text of
             Inr s \<Rightarrow> Inr s
           | Inl _ \<Rightarrow> flesch_reading_ease_manual text)
      | None \<Rightarrow> flesch_reading_ease_manual text)"

definition compute_readability :: "textstat \<Rightarrow> string \<Rightarrow> error + readability_result" where
  "compute_readability ts text =
     (case flesch_score ts text of
        Inl e \<Rightarrow> Inl e
      | Inr s \<Rightarrow> Inr \<lparr>score = py_round2 s, level = interpret_score s\<rparr>)"

section \<open>keyword_utils\<close>

definition STOP_WORDS :: "string list" where
  "STOP_WORDS =
     [''a'', ''an'', ''and'', ''are'', ''as'', ''at'', ''be'', ''but'', ''by'', ''for'',
      ''from'', ''if'', ''in'', ''into'', ''is'', ''it'', ''no'', ''not'', ''of'', ''on'',
      ''or'', ''such'', ''that'', ''the'', ''their'', ''then'', ''there'', ''these'',
      ''they'', ''this'', ''to'', ''was'', ''will'', ''with'', ''we'', ''you'', ''your'']"

text \<open>\<open>WORD_RE = [A-Za-z][A-Za-z'-]{1,}\<close> under \<open>finditer\<close>: at a letter followed by a
  character of the second class the match takes the whole run of that class (the
  quantifier is greedy and nothing follows it), and the scan goes on behind the
  match; anywhere else the scan moves one character on.\<close>

definition is_word_tail :: "char \<Rightarrow> bool" where
  "is_word_tail c = (is_letter c \<or> c = CHR 0x27 \<or> c = CHR ''-'')"

function WORD_RE_finditer :: "string \<Rightarrow> string list" where
  "WORD_RE_finditer [] = []"
| "WORD_RE_finditer [c] = []"
| "WORD_RE_finditer (c # d # cs) =
     (if is_letter c \<and> is_word_tail d
      then (c # d # takeWhile is_word_tail cs) # WORD_RE_finditer (dropWhile is_word_tail cs)
      else WORD_RE_finditer (d # cs))"
  by pat_completeness auto
termination
  by (relation "measure length") (auto simp: length_dropWhile_le le_imp_less_Suc less_SucI)

text \<open>\<open>collections.Counter\<close> over a list: a dict, so its items are in the order in
  which the keys were first inserted.\<close>

fun counter_add :: "string \<Rightarrow> (string \<times> nat) list \<Rightarrow> (string \<times> nat) list" where
  "counter_add w [] = [(w, 1)]"
| "counter_add w ((k, c) # kcs) =
     (if k = w then (k, c + 1) # kcs else (k, c) # counter_add w kcs)"

definition Counter :: "string list \<Rightarrow> (string \<times> nat) list" where
  "Counter ws = foldl (\<lambda>m w. counter_add w m) [] ws"

text \<open>\<open>Counter.most_common(n)\<close> is \<open>heapq.nlargest(n, items, key=count)\<close>, which the
  library documents as \<open>sorted(items, key=count, reverse=True)[:n]\<close>: a stable sort
  by falling count, then the first \<open>n\<close> items (none when \<open>n \<le> 0\<close>).\<close>

definition most_common :: "int \<Rightarrow> (string \<times> nat) list \<Rightarrow> (string \<times> nat) list" where
  "most_common n items = take (nat n) (sort_key (\<lambda>kc. - int (snd kc)) items)"

record keyword_record =
  keyword :: string
  count :: nat

definition words_of :: "string \<Rightarrow> string list" where
  "words_of text = map lower (WORD_RE_finditer text)"

definition filtered_of :: "string \<Rightarrow> string list" where
  "filtered_of text = filter (\<lambda>w. w \<notin> set STOP_WORDS \<and> length w > 2) (words_of text)"

definition extract_keywords :: "string \<Rightarrow> int \<Rightarrow> keyword_record list" where
  "extract_keywords text top_n =
     map (\<lambda>kc. \<lparr>keyword = fst kc, count = snd kc\<rparr>)
         (most_common top_n (Counter (filtered_of text)))"

text \<open>A \<open>textstat\<close> whose \<open>flesch_reading_ease\<close> returns the score \<open>s\<close> on every text.\<close>

definition textstat_const :: "rat \<Rightarrow> textstat" where
  "textstat_const s = Some (\<lambda>_. Inr s)"

text \<open>The position of the first occurrence of \<open>w\<close> in a token list (its length when
  \<open>w\<close> does not occur).\<close>

definition first_index :: "string list \<Rightarrow> string \<Rightarrow> nat" where
  "first_index ws w = length (takeWhile (\<lambda>x. x \<noteq> w) ws)"

text \<open>The test of the filter of \<open>extract_keywords\<close>, by name.\<close>

definition keep :: "string \<Rightarrow> bool" where
  "keep w = (w \<notin> set STOP_WORDS \<and> length w > 2)"

section \<open>Dictionaries and the parse tree of BeautifulSoup\<close>

text \<open>A Python \<open>dict\<close> with string keys is a list of items in insertion order with
  distinct keys. \<open>d[k] = v\<close> replaces the value of an existing key in place and appends
  a new key at the end.\<close>

type_synonym 'v dict = "(string \<times> 'v) list"

fun dict_set :: "string \<Rightarrow> 'v \<Rightarrow> 'v dict \<Rightarrow> 'v dict" where
  "dict_set k v [] = [(k, v)]"
| "dict_set k v ((k', v') # d) =
     (if k' = k then (k, v) # d else (k', v') # dict_set k v d)"

definition dict_get :: "'v dict \<Rightarrow> string \<Rightarrow> 'v option" where
  "dict_get d k = map_of d k"

definition keys :: "'v dict \<Rightarrow> string list" where
  "keys d = map fst d"

text \<open>\<open>d.setdefault(k, []).append(msg)\<close>.\<close>

definition setdefault_append :: "string \<Rightarrow> string \<Rightarrow> string list dict \<Rightarrow> string list dict" where
  "setdefault_append k msg d =
     (case dict_get d k of
        None \<Rightarrow> dict_set k [msg] d
      | Some msgs \<Rightarrow> dict_set k (msgs @ [msg]) d)"

text \<open>\<open>str.split()\<close> without argument: the maximal runs of characters that are not
  white space.\<close>

definition py_split :: "string \<Rightarrow> string list" where
  "py_split s = filter (\<lambda>w. w \<noteq> []) (split_on isspace [] s)"

text \<open>
  The document that \<open>BeautifulSoup(html, 'html.parser')\<close> builds is a list of nodes;
  a node is a tag with its name (in lower case), its attributes (a dict from the
  attribute's name to the text of its value) and its children, or a string of text.
  The strings of the tree are those which \<open>get_text\<close> yields. The parser itself is a
  parameter of the model (it is a library, and it may reject its input by raising).
\<close>

datatype node = Tag string "string dict" "node list" | NavigableString string

type_synonym soup = "node list"

fun name_of :: "node \<Rightarrow> string" where
  "name_of (Tag n _ _) = n"
| "name_of (NavigableString _) = []"

fun attrs_of :: "node \<Rightarrow> string dict" where
  "attrs_of (Tag _ a _) = a"
| "attrs_of (NavigableString _) = []"

fun contents_of :: "node \<Rightarrow> node list" where
  "contents_of (Tag _ _ cs) = cs"
| "contents_of (NavigableString _) = []"

text \<open>All tags below a list of nodes, in document order (a tag before its children).\<close>

fun tags_in :: "node \<Rightarrow> node list" and tags_below :: "node list \<Rightarrow> node list" where
  "tags_in (Tag n a cs) = Tag n a cs # tags_below cs"
| "tags_in (NavigableString s) = []"
| "tags_below [] = []"
| "tags_below (x # xs) = tags_in x @ tags_below xs"

text \<open>All strings below a list of nodes, in document order.\<close>

fun strings_in :: "node \<Rightarrow> string list" and strings_below :: "node list \<Rightarrow> string list" where
  "strings_in (Tag n a cs) = strings_below cs"
| "strings_in (NavigableString s) = [s]"
| "strings_below [] = []"
| "strings_below (x # xs) = strings_in x @ strings_below xs"

text \<open>\<open>find_all\<close> with a tag name, a list of tag names, or a test on the attributes;
  \<open>find\<close> is its first result, \<open>None\<close> when there is none.\<close>

definition find_all :: "string list \<Rightarrow> soup \<Rightarrow> node list" where
  "find_all names s = filter (\<lambda>t. name_of t \<in> set names) (tags_below s)"

definition find_all_where :: "(node \<Rightarrow> bool) \<Rightarrow> soup \<Rightarrow> node list" where
  "find_all_where p s = filter p (tags_below s)"

definition find_first :: "(node \<Rightarrow> bool) \<Rightarrow> soup \<Rightarrow> node option" where
  "find_first p s = (case find_all_where p s of [] \<Rightarrow> None | t # _ \<Rightarrow> Some t)"

text \<open>\<open>attrs={name: True}\<close> and \<open>href=True\<close>: the attribute is present.\<close>

definition has_attr :: "string \<Rightarrow> node \<Rightarrow> bool" where
  "has_attr a t = (dict_get (attrs_of t) a \<noteq> None)"

text \<open>An attribute equal to a given string. The values of \<open>class\<close> and \<open>rel\<close> are
  lists of tokens for the parser: such an attribute matches when one of its tokens is
  the string, or the tokens joined by single spaces are.\<close>

definition attr_is :: "string \<Rightarrow> string \<Rightarrow> node \<Rightarrow> bool" where
  "attr_is a v t = (dict_get (attrs_of t) a = Some v)"

fun join :: "string \<Rightarrow> string list \<Rightarrow> string" where
  "join sep [] = []"
| "join sep [x] = x"
| "join sep (x # y # ys) = x @ sep @ join sep (y # ys)"

definition multi_attr_is :: "string \<Rightarrow> string \<Rightarrow> node \<Rightarrow> bool" where
  "multi_attr_is a v t =
     (case dict_get (attrs_of t) a of
        None \<Rightarrow> False
      | Some raw \<Rightarrow> v \<in> set (py_split raw) \<or> join '' '' (py_split raw) = v)"

definition named :: "string \<Rightarrow> node \<Rightarrow> bool" where
  "named n t = (name_of t = n)"

text \<open>\<open>get_text()\<close>, \<open>get_text(strip=True)\<close> and \<open>get_text(separator=' ', strip=True)\<close>:
  with \<open>strip\<close> every string is stripped and the empty ones are left out.\<close>

definition get_text :: "node list \<Rightarrow> string" where
  "get_text ns = concat (strings_below ns)"

definition get_text_strip :: "string \<Rightarrow> node list \<Rightarrow> string" where
  "get_text_strip sep ns = join sep (filter (\<lambda>s. s \<noteq> []) (map strip (strings_below ns)))"

section \<open>ai_search_optimizer\<close>

definition msg_h1 :: string where
  "msg_h1 = ''Use exactly one <h1> heading per page to clearly define the topic.''"

definition msg_h2 :: string where
  "msg_h2 = ''Include multiple <h2> subheadings to structure your content into sections.''"

definition msg_lists :: string where
  "msg_lists = ''Add bullet or numbered lists to break down complex information into digestible points.''"

definition msg_schema :: string where
  "msg_schema = ''Implement schema.org structured data (e.g. Article or FAQ) to help search engines understand your page.''"

definition msg_trust :: string where
  "msg_trust = ''Add author information and, if appropriate, credentials or citations to establish trust and expertise.''"

definition msg_tldr :: string where
  "msg_tldr = ''Consider adding a concise summary or TL;DR at the beginning of the article to answer common questions quickly.''"

definition msg_intro :: string where
  "msg_intro = ''Add a short introductory paragraph that summarises the page'' @ [CHR 0x27]
                 @ ''s topic.''"

definition msg_tone :: string where
  "msg_tone = ''Use shorter sentences and a conversational tone to improve readability and user engagement.''"

text \<open>1. Heading structure.\<close>

definition heading_suggestions :: "soup \<Rightarrow> string list" where
  "heading_suggestions s =
     (if length (find_all [''h1''] s) \<noteq> 1 then [msg_h1] else [])
     @ (if length (find_all [''h2''] s) < 2 then [msg_h2] else [])"

text \<open>3. Schema markup.\<close>

definition has_json_ld :: "soup \<Rightarrow> bool" where
  "has_json_ld s =
     (find_first (\<lambda>t. named ''script'' t \<and> attr_is ''type'' ''application/ld+json'' t) s \<noteq> None)"

definition has_microdata :: "soup \<Rightarrow> bool" where
  "has_microdata s =
     (find_first (has_attr ''itemscope'') s \<noteq> None \<or> find_first (has_attr ''itemtype'') s \<noteq> None)"

text \<open>4. Trust and author signals.\<close>

definition author_meta :: "soup \<Rightarrow> node option" where
  "author_meta s = find_first (\<lambda>t. named ''meta'' t \<and> attr_is ''name'' ''author'' t) s"

definition author_link :: "soup \<Rightarrow> node option" where
  "author_link s = find_first (\<lambda>t. named ''a'' t \<and> multi_attr_is ''rel'' ''author'' t) s"

text \<open>6. The sentences of the content, and whether their average length in words
  exceeds 25 (the quotient is a float in the source; it is compared exactly here).\<close>

definition sentences_of :: "string \<Rightarrow> string list" where
  "sentences_of content =
     map strip (filter (\<lambda>s. strip s \<noteq> []) (split_on (\<lambda>c. c = CHR ''.'') [] content))"

definition avg_len :: "string list \<Rightarrow> rat" where
  "avg_len sentences =
     of_nat (sum_list (map (\<lambda>s. length (py_split s)) sentences)) / of_nat (length sentences)"

definition suggest :: "string \<Rightarrow> soup \<Rightarrow> string list dict" where
  "suggest content s =
     (let s1 = (if heading_suggestions s \<noteq> []
                then dict_set ''headings'' (heading_suggestions s) [] else []);
          s2 = (if find_all [''ul'', ''ol''] s = []
                then setdefault_append ''lists'' msg_lists s1 else s1);
          s3 = (if \<not> (has_json_ld s \<or> has_microdata s)
                then setdefault_append ''schema'' msg_schema s2 else s2);
          s4 = (if \<not> (author_meta s \<noteq> None \<or> author_link s \<noteq> None)
                then setdefault_append ''trust'' msg_trust s3 else s3);
          s5 = (case find_first (named ''p'') s of
                  Some first_p \<Rightarrow>
                    (if length (py_split (get_text (contents_of first_p))) > 50
                     then setdefault_append ''summary'' msg_tldr s4 else s4)
                | None \<Rightarrow> setdefault_append ''summary'' msg_intro s4);
          sentences = sentences_of content;
          s6 = (if sentences \<noteq> []
                then (if avg_len sentences > 25
                      then setdefault_append ''tone'' msg_tone s5 else s5)
                else s5)
      in s6)"

text \<open>The function of the source parses the raw HTML first; what the parser raises
  is raised by the function.\<close>

definition analyze_ai_search_factors ::
    "(string \<Rightarrow> error + soup) \<Rightarrow> string \<Rightarrow> string \<Rightarrow> error + string list dict" where
  "analyze_ai_search_factors parse content html =
     (case parse html of
        Inl e \<Rightarrow> Inl e
      | Inr s \<Rightarrow> Inr (suggest content s))"







text \<open>The item that a rule contributes to the result: one key with its messages when
  the rule fired, nothing otherwise.\<close>

definition entry :: "bool \<Rightarrow> string \<Rightarrow> string list \<Rightarrow> string list dict" where
  "entry fired k msgs = (if fired then [(k, msgs)] else [])"




section \<open>performance_utils\<close>

datatype pvalue = PInt int | PFloat rat | PStr string

text \<open>What happens inside the \<open>try\<close> of \<open>analyze_performance\<close>: the session answers with
  a status, the body that was read and the time that passed on \<open>time.perf_counter\<close>
  between the start and the end of the read, or something raises (a timeout, DNS,
  TLS, a reset connection). The statements before the \<open>try\<close> (the timeout object and,
  for an \<open>https\<close> URL, the default SSL context) do not raise.\<close>

datatype probe_outcome = ProbeResponse int string rat | ProbeRaises error

definition analyze_performance :: "(string \<Rightarrow> probe_outcome) \<Rightarrow> string \<Rightarrow> pvalue dict" where
  "analyze_performance session_get url =
     (case session_get url of
        ProbeResponse status content response_time \<Rightarrow>
          [(''status_code'', PInt status),
           (''response_time_seconds'', PFloat (py_round3 response_time)),
           (''page_size_kb'', PFloat (py_round2 (of_nat (length content) / 1024)))]
      | ProbeRaises exc \<Rightarrow>
          [(''status_code'', PInt (- 1)),
           (''error'', PStr (str_exc exc))])"

section \<open>content_analyzer\<close>

text \<open>
  \<open>cachetools.TTLCache(maxsize=100, ttl=3600)\<close>, as the library documents it: a cache
  with least-recently-used eviction in which every item expires \<open>ttl\<close> seconds after
  it was stored. The cache is the list of its items \<open>(key, value, expires)\<close>, the least
  recently used first; keys are distinct. Every operation reads the timer once; the
  reading is an argument. The timer is monotonic and all items have the same
  time-to-live, so the items that \<open>expire\<close> removes (the expired ones at the front of
  the library's list by expiry time) are all the expired items.
\<close>

type_synonym 'v ttl_cache = "(string \<times> 'v \<times> rat) list"

definition maxsize :: nat where
  "maxsize = 100"

definition ttl :: rat where
  "ttl = 3600"

definition expire :: "rat \<Rightarrow> 'v ttl_cache \<Rightarrow> 'v ttl_cache" where
  "expire now c = filter (\<lambda>item. now < snd (snd item)) c"

definition move_to_end :: "string \<Rightarrow> 'v ttl_cache \<Rightarrow> 'v ttl_cache" where
  "move_to_end k c = filter (\<lambda>item. fst item \<noteq> k) c @ filter (\<lambda>item. fst item = k) c"

text \<open>\<open>key in cache\<close>: present and not expired; the order of the items is not touched.\<close>

definition cache_contains :: "rat \<Rightarrow> 'v ttl_cache \<Rightarrow> string \<Rightarrow> bool" where
  "cache_contains now c k =
     (case map_of c k of None \<Rightarrow> False | Some (v, expires) \<Rightarrow> now < expires)"

text \<open>\<open>cache[key]\<close>: the item becomes the most recently used one; an absent or an
  expired item raises \<open>KeyError\<close>.\<close>

definition cache_getitem :: "rat \<Rightarrow> 'v ttl_cache \<Rightarrow> string \<Rightarrow> (error + 'v) \<times> 'v ttl_cache" where
  "cache_getitem now c k =
     (case map_of c k of
        None \<Rightarrow> (Inl (KeyError k), c)
      | Some (v, expires) \<Rightarrow>
          (if \<not> (now < expires) then (Inl (KeyError k), move_to_end k c)
           else (Inr v, move_to_end k c)))"

text \<open>\<open>cache[key] = value\<close>: the expired items are removed; for a new key the least
  recently used items are popped while the cache is full; the item is stored as the
  most recently used one and expires \<open>ttl\<close> after the reading of the timer.\<close>

definition cache_setitem :: "rat \<Rightarrow> 'v ttl_cache \<Rightarrow> string \<Rightarrow> 'v \<Rightarrow> 'v ttl_cache" where
  "cache_setitem now c k v =
     (let c1 = expire now c;
          c2 = (if k \<in> set (map fst c1) then c1 else drop (length c1 + 1 - maxsize) c1)
      in filter (\<lambda>item. fst item \<noteq> k) c2 @ [(k, v, now + ttl)])"

text \<open>The dict that \<open>fetch_content\<close> returns. A link is \<open>(text, href)\<close>, an image
  \<open>(src, alt, loading)\<close>, a script \<open>(src, async, defer)\<close>, a style its \<open>href\<close>.\<close>

record fetch_result =
  content :: string
  full_content :: string
  meta_title :: "string option"
  meta_description :: "string option"
  headings :: "string list dict"
  links :: "(string \<times> string) list"
  images :: "(string \<times> string \<times> string option) list"
  scripts :: "(string \<times> bool \<times> bool) list"
  styles :: "string list"
  full_html :: string

text \<open>\<open>requests.get(url, headers=..., timeout=30)\<close>: a response with its status code and
  its text, or an exception. The library, the parser \<open>BeautifulSoup(html, 'html.parser')\<close>
  and the printer \<open>str(soup)\<close> are the environment of a call.\<close>

datatype http_outcome = Response int string | GetRaises error

record env =
  requests_get :: "string \<Rightarrow> http_outcome"
  soup_of :: "string \<Rightarrow> error + soup"
  str_of_soup :: "soup \<Rightarrow> string"

text \<open>\<open>Response.raise_for_status\<close> raises \<open>HTTPError\<close> for the status codes 400 to 599
  and for no other.\<close>

definition raise_for_status :: "int \<Rightarrow> error + unit" where
  "raise_for_status status =
     (if 400 \<le> status \<and> status < 600
      then Inl (RequestException ''HTTPError'') else Inr ())"

text \<open>\<open>tag.decompose()\<close> for every tag with one of the names: the tags and all that is
  below them leave the tree.\<close>

fun remove_in :: "string list \<Rightarrow> node \<Rightarrow> node list"
  and remove_tags :: "string list \<Rightarrow> node list \<Rightarrow> node list" where
  "remove_in names (Tag n a cs) =
     (if n \<in> set names then [] else [Tag n a (remove_tags names cs)])"
| "remove_in names (NavigableString s) = [NavigableString s]"
| "remove_tags names [] = []"
| "remove_tags names (x # xs) = remove_in names x @ remove_tags names xs"

definition extract_main_content :: "(string \<Rightarrow> error + soup) \<Rightarrow> string \<Rightarrow> error + string" where
  "extract_main_content parse html_content =
     (case parse html_content of
        Inl e \<Rightarrow> Inl e
      | Inr s0 \<Rightarrow>
          (let s = remove_tags [''script'', ''style'', ''nav'', ''header'', ''footer'', ''aside''] s0;
               main = (case find_first (\<lambda>t. name_of t \<in> set [''article'', ''main'']) s of
                         Some t \<Rightarrow> Some t
                       | None \<Rightarrow>
                           find_first (\<lambda>t. named ''div'' t \<and> multi_attr_is ''class'' ''content'' t) s)
           in case main of
                Some t \<Rightarrow> Inr (get_text_strip '' '' (contents_of t))
              | None \<Rightarrow> Inr (get_text_strip '' '' s)))"

text \<open>\<open>tag.string\<close>: the string of a tag whose only child is a string, or is a tag
  that has one.\<close>

fun string_of :: "node \<Rightarrow> string option" and only_string :: "node list \<Rightarrow> string option" where
  "string_of (NavigableString s) = Some s"
| "string_of (Tag n a cs) = only_string cs"
| "only_string [] = None"
| "only_string (x # xs) = (if xs = [] then string_of x else None)"

text \<open>\<open>tag[name]\<close> raises \<open>KeyError\<close> when the attribute is absent; \<open>tag.get(name, d)\<close>
  gives the default.\<close>

definition attr_item :: "node \<Rightarrow> string \<Rightarrow> error + string" where
  "attr_item t a = (case dict_get (attrs_of t) a of None \<Rightarrow> Inl (KeyError a) | Some v \<Rightarrow> Inr v)"

definition attr_get :: "node \<Rightarrow> string \<Rightarrow> string \<Rightarrow> string" where
  "attr_get t a d = (case dict_get (attrs_of t) a of None \<Rightarrow> d | Some v \<Rightarrow> v)"

text \<open>\<open>soup.find('meta', attrs={'name': 'description'})\<close>.\<close>

definition description_tag :: "node \<Rightarrow> bool" where
  "description_tag t = (named ''meta'' t \<and> attr_is ''name'' ''description'' t)"

definition meta_description_of :: "soup \<Rightarrow> error + string option" where
  "meta_description_of s =
     (case find_first description_tag s of
        Some t \<Rightarrow> (case attr_item t ''content'' of Inl e \<Rightarrow> Inl e | Inr v \<Rightarrow> Inr (Some v))
      | None \<Rightarrow> Inr None)"

definition headings_of :: "soup \<Rightarrow> string list dict" where
  "headings_of s =
     map (\<lambda>h. (h, map (\<lambda>t. get_text_strip [] (contents_of t)) (find_all [h] s)))
         [''h1'', ''h2'', ''h3'', ''h4'', ''h5'', ''h6'']"

text \<open>The body of the \<open>try\<close> after \<open>raise_for_status\<close>: everything that is computed
  from the text of the response.\<close>

definition build_result :: "env \<Rightarrow> string \<Rightarrow> error + fetch_result" where
  "build_result e html_content =
     (case soup_of e html_content of
        Inl exc \<Rightarrow> Inl exc
      | Inr s \<Rightarrow>
     (case extract_main_content (soup_of e) html_content of
        Inl exc \<Rightarrow> Inl exc
      | Inr main_content \<Rightarrow>
     (case meta_description_of s of
        Inl exc \<Rightarrow> Inl exc
      | Inr description \<Rightarrow>
          Inr \<lparr>content = main_content,
               full_content = get_text s,
               meta_title = (case find_first (named ''title'') s of
                               Some t \<Rightarrow> string_of t | None \<Rightarrow> None),
               meta_description = description,
               headings = headings_of s,
               links = map (\<lambda>a. (get_text_strip [] (contents_of a), attr_get a ''href'' []))
                         (find_all_where (\<lambda>t. named ''a'' t \<and> has_attr ''href'' t) s),
               images = map (\<lambda>img. (attr_get img ''src'' [], attr_get img ''alt'' [],
                                     dict_get (attrs_of img) ''loading''))
                          (find_all [''img''] s),
               scripts = map (\<lambda>sc. (attr_get sc ''src'' [], has_attr ''async'' sc,
                                     has_attr ''defer'' sc))
                           (find_all_where (\<lambda>t. named ''script'' t \<and> has_attr ''src'' t) s),
               styles = map (\<lambda>l. attr_get l ''href'' [])
                          (find_all_where
                             (\<lambda>t. named ''link'' t \<and> multi_attr_is ''rel'' ''stylesheet'' t) s),
               full_html = str_of_soup e s\<rparr>)))"

text \<open>The readings of the timer at the three cache operations of a call: at
  \<open>url in content_cache\<close>, at \<open>content_cache[url]\<close> and at \<open>content_cache[url] = result\<close>.\<close>

record ticks =
  at_contains :: rat
  at_getitem :: rat
  at_setitem :: rat

text \<open>\<open>fetch_content\<close> with the cache passed in and out. The result is what the call
  returns (\<open>None\<close> for a failure that was caught and logged) or the exception that
  leaves it; the number counts the HTTP requests that the call issued.\<close>

definition fetch_content ::
    "env \<Rightarrow> ticks \<Rightarrow> fetch_result ttl_cache \<Rightarrow> string
       \<Rightarrow> (error + fetch_result option) \<times> fetch_result ttl_cache \<times> nat" where
  "fetch_content e tk cache url =
     (if cache_contains (at_contains tk) cache url
      then (case cache_getitem (at_getitem tk) cache url of
              (Inl exc, cache') \<Rightarrow> (Inl exc, cache', 0)
            | (Inr r, cache') \<Rightarrow> (Inr (Some r), cache', 0))
      else (case requests_get e url of
              GetRaises exc \<Rightarrow> (Inr None, cache, 1)
            | Response status html_content \<Rightarrow>
                (case raise_for_status status of
                   Inl exc \<Rightarrow> (Inr None, cache, 1)
                 | Inr _ \<Rightarrow>
                     (case build_result e html_content of
                        Inl exc \<Rightarrow> (Inr None, cache, 1)
                      | Inr result \<Rightarrow>
                          (Inr (Some result),
                           cache_setitem (at_setitem tk) cache url result, 1)))))"

section \<open>seo_analyzer\<close>

datatype rvalue =
    RStr string
  | RKeywords "keyword_record list"
  | RReadability readability_result
  | RPerformance "pvalue dict"
  | RSuggestions "string list dict"

text \<open>The four functions that \<open>analyze_url\<close> calls after the fetch. A call in Python
  returns or raises, so each is a function into a sum; \<open>analyze_url_with\<close> is the body
  of \<open>analyze_url\<close> over any four such functions, and \<open>analyze_url\<close> below is the body
  over the four functions of this repository.\<close>

record stages =
  keywords_stage :: "string \<Rightarrow> error + keyword_record list"
  readability_stage :: "string \<Rightarrow> error + readability_result"
  performance_stage :: "string \<Rightarrow> error + pvalue dict"
  suggestions_stage :: "string \<Rightarrow> string \<Rightarrow> error + string list dict"

datatype stage = Keywords | Readability | Performance | Suggestions

text \<open>The handler of the outer \<open>try\<close>.\<close>

definition unexpected :: "error \<Rightarrow> rvalue dict \<Rightarrow> rvalue dict" where
  "unexpected exc report = dict_set ''error'' (RStr (''Unexpected error: '' @ str_exc exc)) report"

text \<open>The result is the report, the cache after the call, and the stages that were
  called, in order.\<close>

definition analyze_url_with ::
    "stages \<Rightarrow> env \<Rightarrow> ticks \<Rightarrow> fetch_result ttl_cache \<Rightarrow> string
       \<Rightarrow> rvalue dict \<times> fetch_result ttl_cache \<times> stage list" where
  "analyze_url_with st e tk cache url =
     (let report = [(''url'', RStr url)] in
      case fetch_content e tk cache url of
        (Inl exc, cache', n) \<Rightarrow> (unexpected exc report, cache', [])
      | (Inr None, cache', n) \<Rightarrow>
          (dict_set ''error'' (RStr ''Failed to fetch content from the URL.'') report, cache', [])
      | (Inr (Some content_data), cache', n) \<Rightarrow>
          (let ctext = content content_data;
               html = full_html content_data
           in case keywords_stage st ctext of
                Inl exc \<Rightarrow> (unexpected exc report, cache', [Keywords])
              | Inr kw \<Rightarrow>
          (let report = dict_set ''keyword_analysis'' (RKeywords kw) report
           in case readability_stage st ctext of
                Inl exc \<Rightarrow> (unexpected exc report, cache', [Keywords, Readability])
              | Inr rd \<Rightarrow>
          (let report = dict_set ''readability'' (RReadability rd) report
           in case performance_stage st url of
                Inl exc \<Rightarrow> (unexpected exc report, cache', [Keywords, Readability, Performance])
              | Inr pf \<Rightarrow>
          (let report = dict_set ''performance'' (RPerformance pf) report
           in case suggestions_stage st ctext html of
                Inl exc \<Rightarrow>
                  (unexpected exc report, cache',
                   [Keywords, Readability, Performance, Suggestions])
              | Inr sg \<Rightarrow>
                  (dict_set ''ai_search_optimization'' (RSuggestions sg) report, cache',
                   [Keywords, Readability, Performance, Suggestions]))))))"

text \<open>The stages of the repository: \<open>extract_keywords\<close> with its default \<open>top_n = 15\<close>,
  \<open>compute_readability\<close>, \<open>analyze_performance\<close> and \<open>analyze_ai_search_factors\<close>.\<close>

definition repo_stages :: "textstat \<Rightarrow> (string \<Rightarrow> probe_outcome) \<Rightarrow> env \<Rightarrow> stages" where
  "repo_stages ts session_get e =
     \<lparr>keywords_stage = (\<lambda>ctext. Inr (extract_keywords ctext 15)),
      readability_stage = compute_readability ts,
      performance_stage = (\<lambda>url. Inr (analyze_performance session_get url)),
      suggestions_stage = analyze_ai_search_factors (soup_of e)\<rparr>"

definition analyze_url ::
    "textstat \<Rightarrow> (string \<Rightarrow> probe_outcome) \<Rightarrow> env \<Rightarrow> ticks \<Rightarrow> fetch_result ttl_cache \<Rightarrow> string
       \<Rightarrow> rvalue dict \<times> fetch_result ttl_cache \<times> stage list" where
  "analyze_url ts session_get e = analyze_url_with (repo_stages ts session_get e) e"

section \<open>Example environments\<close>

text \<open>A network that resolves nothing and a parser that rejects everything; a clock
  that reads 0; a result as \<open>fetch_content\<close> builds it, and a cache that holds it until
  3600; four stages that return fixed values.\<close>

definition offline :: env where
  "offline =
     \<lparr>requests_get = (\<lambda>_. GetRaises (RequestException ''Failed to resolve host'')),
      soup_of = (\<lambda>_. Inl (Exception ''markup rejected'')),
      str_of_soup = (\<lambda>_. [])\<rparr>"

definition midnight :: ticks where
  "midnight = \<lparr>at_contains = 0, at_getitem = 0, at_setitem = 0\<rparr>"

definition sample_data :: fetch_result where
  "sample_data =
     \<lparr>content = ''Hello world.'', full_content = ''Hello world.'', meta_title = None,
      meta_description = None,
      headings = [(''h1'', []), (''h2'', []), (''h3'', []), (''h4'', []), (''h5'', []), (''h6'', [])],
      links = [], images = [], scripts = [],
      styles = [], full_html = ''<p>Hello world.</p>''\<rparr>"

definition stub_stages :: stages where
  "stub_stages =
     \<lparr>keywords_stage = (\<lambda>_. Inr []),
      readability_stage = (\<lambda>_. Inr \<lparr>score = 100, level = ''Very easy (5th grade)''\<rparr>),
      performance_stage = (\<lambda>_. Inr []),
      suggestions_stage = (\<lambda>_ _. Inr [])\<rparr>"

definition warm_cache :: "fetch_result ttl_cache" where
  "warm_cache = [(''https://a.test'', sample_data, 3600)]"

text \<open>A network that serves one small page with status 200, and clocks that read
  10 and 4000.\<close>

definition online :: env where
  "online =
     \<lparr>requests_get = (\<lambda>_. Response 200 ''<p>Hello world.</p>''),
      soup_of = (\<lambda>_. Inr [Tag ''p'' [] [NavigableString ''Hello world.'']]),
      str_of_soup = (\<lambda>_. ''<p>Hello world.</p>'')\<rparr>"

definition at_time :: "rat \<Rightarrow> ticks" where
  "at_time t = \<lparr>at_contains = t, at_getitem = t, at_setitem = t\<rparr>"



section \<open>Properties of the readability scorer\<close>

lemma syllable_count_ge1: "1 \<le> syllable_count w"
  by (simp add: syllable_count_def Let_def)

lemma words_count_max: "words_count_of text = max 1 (length (findall_letters [] text))"
  by (cases "findall_letters [] text") (simp_all add: words_count_of_def Let_def)

lemma sentences_count_max:
  "sentences_count_of text =
     max 1 (length (filter (\<lambda>s. strip s \<noteq> []) (split_on is_sentence_end [] text)))"
  by (cases "filter (\<lambda>s. strip s \<noteq> []) (split_on is_sentence_end [] text)")
     (simp_all add: sentences_count_of_def Let_def)

lemma flesch_manual_value:
  "flesch_reading_ease_manual text =
      Inr (206835 / 1000
           - (1015 / 1000) * (of_nat (words_count_of text) / of_nat (sentences_count_of text))
           - (846 / 10) * (of_nat (syllables_count_of text) / of_nat (words_count_of text)))"
proof -
  have "words_count_of text \<noteq> 0" by (simp add: words_count_max)
  moreover have "sentences_count_of text \<noteq> 0" by (simp add: sentences_count_max)
  ultimately show ?thesis
    by (simp add: flesch_reading_ease_manual_def py_div_def Let_def)
qed

text \<open>
  C6. The manual Flesch formula returns a score on every text, the empty one included:
  no division raises. The word count is the number of letter runs, or 1 when there is
  none; the sentence count is the number of non-blank pieces between \<open>.\<close>, \<open>!\<close> and
  \<open>?\<close>, or 1 when there is none; so both divisors of the formula
  \<open>206.835 - 1.015 * (words / sentences) - 84.6 * (syllables / words)\<close> are non-zero.
  The syllable estimate of every word is at least 1.
\<close>

theorem flesch_manual_total:
  "flesch_reading_ease_manual text =
      Inr (206835 / 1000
           - (1015 / 1000) * (of_nat (words_count_of text) / of_nat (sentences_count_of text))
           - (846 / 10) * (of_nat (syllables_count_of text) / of_nat (words_count_of text)))
   \<and> words_count_of text = max 1 (length (findall_letters [] text))
   \<and> sentences_count_of text =
       max 1 (length (filter (\<lambda>s. strip s \<noteq> []) (split_on is_sentence_end [] text)))
   \<and> words_count_of text \<noteq> 0 \<and> sentences_count_of text \<noteq> 0
   \<and> 1 \<le> syllable_count word"
proof -
  have "words_count_of text \<noteq> 0" by (simp add: words_count_max)
  moreover have "sentences_count_of text \<noteq> 0" by (simp add: sentences_count_max)
  ultimately show ?thesis
    using flesch_manual_value words_count_max sentences_count_max syllable_count_ge1
    by blast
qed

theorem flesch_manual_total_witness:
  "flesch_reading_ease_manual '''' = Inr (20582 / 100) \<and> syllable_count '''' = 1"
proof -
  have a: "words_count_of '''' = 1" by (simp add: words_count_of_def)
  have b: "sentences_count_of '''' = 1" by (simp add: sentences_count_of_def strip_def)
  have c: "syllables_count_of '''' = 0" by (simp add: syllables_count_of_def)
  have d: "syllable_count '''' = 1" by (simp add: syllable_count_def lower_def endswith_e_def)
  from flesch_manual_total [of "''''" "''''"] a b c d show ?thesis by simp
qed







lemma flesch_score_const: "flesch_score (textstat_const s) text = Inr s"
  by (simp add: flesch_score_def textstat_const_def)




text \<open>The band is chosen before the score is rounded: a formula score of 89.996 is
  returned as 90 with the level of the band below.\<close>

lemma compute_readability_band_before_rounding:
  "compute_readability (textstat_const (89996 / 1000)) ''some text''
     = Inr \<lparr>score = 90, level = ''Easy (6th grade)''\<rparr>"
proof -
  have "py_round2 (89996 / 1000) = 90" by code_simp
  then show ?thesis
    by (simp add: flesch_score_const compute_readability_def interpret_score_def)
qed

section \<open>Properties of the keyword extractor\<close>

lemma keys_counter_add:
  "map fst (counter_add w m) = (if w \<in> set (map fst m) then map fst m else map fst m @ [w])"
  by (induction m) force+

lemma map_of_counter_add:
  "map_of (counter_add w m) k =
     (if k = w then Some (case map_of m w of None \<Rightarrow> 1 | Some c \<Rightarrow> c + 1) else map_of m k)"
  by (induction m) auto

lemma Counter_snoc: "Counter (ws @ [w]) = counter_add w (Counter ws)"
  by (simp add: Counter_def)

lemma Counter_Nil: "Counter [] = []"
  by (simp add: Counter_def)

lemma keys_Counter: "set (map fst (Counter ws)) = set ws"
  by (induction ws rule: rev_induct) (auto simp: Counter_Nil Counter_snoc keys_counter_add)

lemma distinct_Counter: "distinct (map fst (Counter ws))"
  by (induction ws rule: rev_induct) (auto simp: Counter_Nil Counter_snoc keys_counter_add)

lemma map_of_Counter:
  "map_of (Counter ws) k = (if k \<in> set ws then Some (count_list ws k) else None)"
  by (induction ws rule: rev_induct)
     (auto simp: Counter_Nil Counter_snoc map_of_counter_add)

lemma Counter_count: "(k, c) \<in> set (Counter ws) \<Longrightarrow> c = count_list ws k \<and> k \<in> set ws"
  using map_of_Counter [of ws k] distinct_Counter [of ws]
  by (auto split: if_splits)

lemma first_index_snoc_mem: "x \<in> set ws \<Longrightarrow> first_index (ws @ [w]) x = first_index ws x"
  by (simp add: first_index_def takeWhile_append1)

lemma first_index_less: "x \<in> set ws \<Longrightarrow> first_index ws x < length ws"
  unfolding first_index_def by (induction ws) auto

lemma first_index_snoc_new: "w \<notin> set ws \<Longrightarrow> first_index (ws @ [w]) w = length ws"
  unfolding first_index_def by (induction ws) auto

lemma Counter_first_occurrence:
  "sorted_wrt (\<lambda>a b. first_index ws (fst a) < first_index ws (fst b)) (Counter ws)"
proof (induction ws rule: rev_induct)
  case Nil
  then show ?case by (simp add: Counter_Nil)
next
  case (snoc w ws)
  let ?m = "Counter ws"
  have keys: "set (map fst ?m) = set ws" by (rule keys_Counter)
  have old: "sorted_wrt (\<lambda>x y. first_index (ws @ [w]) x < first_index (ws @ [w]) y) (map fst ?m)"
  proof -
    have "sorted_wrt (\<lambda>x y. first_index ws x < first_index ws y) (map fst ?m)"
      using snoc.IH by (simp add: sorted_wrt_map)
    then show ?thesis
      by (rule sorted_wrt_mono_rel [rotated]) (use keys in \<open>auto simp: first_index_snoc_mem\<close>)
  qed
  have "sorted_wrt (\<lambda>x y. first_index (ws @ [w]) x < first_index (ws @ [w]) y)
          (map fst (counter_add w ?m))"
  proof (cases "w \<in> set ws")
    case True
    then show ?thesis using old keys by (simp add: keys_counter_add)
  next
    case False
    then show ?thesis using old keys
      by (auto simp: keys_counter_add sorted_wrt_append first_index_snoc_mem
          first_index_snoc_new first_index_less)
  qed
  then show ?case by (simp add: Counter_snoc sorted_wrt_map)
qed

text \<open>A stable sort of a list that is in ascending order of \<open>g\<close> is in lexicographic order
  of \<open>(f, g)\<close>.\<close>

lemma insort_key_lex:
  assumes "sorted_wrt (\<lambda>a b. f a < f b \<or> (f a = f b \<and> g a < g b)) ys"
    and "\<forall>y \<in> set ys. g x < g y"
  shows "sorted_wrt (\<lambda>a b. f a < f b \<or> (f a = f b \<and> (g a :: nat) < g b)) (insort_key f x ys)"
  using assms
proof (induction ys)
  case Nil
  then show ?case by simp
next
  case (Cons y ys)
  show ?case
  proof (cases "f x \<le> f y")
    case True
    have "f x < f z \<or> (f x = f z \<and> g x < g z)" if "z \<in> set (y # ys)" for z
    proof -
      have "f y \<le> f z" using Cons.prems(1) that by auto
      with True have "f x \<le> f z" by simp
      moreover have "g x < g z" using Cons.prems(2) that by auto
      ultimately show ?thesis by auto
    qed
    with True Cons.prems(1) show ?thesis by simp
  next
    case False
    then have "f y < f x" by simp
    moreover have "sorted_wrt (\<lambda>a b. f a < f b \<or> (f a = f b \<and> g a < g b)) (insort_key f x ys)"
      using Cons by simp
    ultimately show ?thesis using False Cons.prems(1) by (auto simp: set_insort_key)
  qed
qed

lemma sort_key_lex:
  fixes f :: "'a \<Rightarrow> int" and g :: "'a \<Rightarrow> nat"
  assumes "sorted_wrt (\<lambda>a b. g a < g b) xs"
  shows "sorted_wrt (\<lambda>a b. f a < f b \<or> (f a = f b \<and> g a < g b)) (sort_key f xs)"
  using assms
proof (induction xs)
  case Nil
  then show ?case by simp
next
  case (Cons x xs)
  then have "sorted_wrt (\<lambda>a b. f a < f b \<or> (f a = f b \<and> g a < g b)) (sort_key f xs)"
    and "\<forall>y \<in> set (sort_key f xs). g x < g y"
    by auto
  then show ?case by (simp add: insort_key_lex)
qed

lemma first_index_Cons:
  "first_index (x # ws) a = (if x = a then 0 else Suc (first_index ws a))"
  by (simp add: first_index_def)

lemma first_index_filter:
  "P a \<Longrightarrow> P b \<Longrightarrow>
   first_index (filter P ws) a < first_index (filter P ws) b
     \<longleftrightarrow> first_index ws a < first_index ws b"
  by (induction ws) (auto simp: first_index_Cons)

lemma count_list_filter: "P k \<Longrightarrow> count_list (filter P ws) k = count_list ws k"
  by (induction ws) auto

lemma filtered_of_keep: "filtered_of text = filter keep (words_of text)"
  unfolding filtered_of_def by (rule filter_cong) (simp_all add: keep_def)

lemma most_common_subset: "set (most_common n items) \<subseteq> set items"
  unfolding most_common_def by (metis set_take_subset set_sort)

lemma most_common_length: "length (most_common n items) \<le> nat n"
  by (simp add: most_common_def)

lemma most_common_order:
  assumes "sorted_wrt (\<lambda>a b. first_index ws (fst a) < first_index ws (fst b)) items"
  shows "sorted_wrt (\<lambda>a b. snd b < snd a
            \<or> (snd a = snd b \<and> first_index ws (fst a) < first_index ws (fst b)))
          (most_common n items)"
proof -
  have "sorted_wrt (\<lambda>a b. - int (snd a) < - int (snd b)
            \<or> (- int (snd a) = - int (snd b) \<and> first_index ws (fst a) < first_index ws (fst b)))
          (sort_key (\<lambda>kc. - int (snd kc)) items)"
    using assms by (rule sort_key_lex)
  then have "sorted_wrt (\<lambda>a b. snd b < snd a
            \<or> (snd a = snd b \<and> first_index ws (fst a) < first_index ws (fst b)))
          (sort_key (\<lambda>kc. - int (snd kc)) items)"
    by (rule sorted_wrt_mono_rel [rotated]) auto
  then show ?thesis
    unfolding most_common_def by (rule sorted_wrt_take)
qed

lemma extract_keywords_members:
  assumes "r \<in> set (extract_keywords text top_n)"
  shows "keep (keyword r) \<and> count r = count_list (words_of text) (keyword r) \<and> 0 < count r"
proof -
  from assms obtain kc where kc: "kc \<in> set (most_common top_n (Counter (filtered_of text)))"
    and r: "r = \<lparr>keyword = fst kc, count = snd kc\<rparr>"
    by (auto simp: extract_keywords_def)
  from kc most_common_subset have "(fst kc, snd kc) \<in> set (Counter (filtered_of text))"
    by fastforce
  then have c: "snd kc = count_list (filtered_of text) (fst kc)"
    and m: "fst kc \<in> set (filtered_of text)"
    using Counter_count by blast+
  from m have k: "keep (fst kc)" by (simp add: filtered_of_keep)
  then have "count_list (filtered_of text) (fst kc) = count_list (words_of text) (fst kc)"
    by (simp add: filtered_of_keep count_list_filter)
  moreover have "0 < count_list (filtered_of text) (fst kc)"
    using m by (metis count_list_0_iff gr0I)
  ultimately show ?thesis using r c k by simp
qed

lemma extract_keywords_order:
  "sorted_wrt (\<lambda>a b. count b < count a
      \<or> (count a = count b
          \<and> first_index (words_of text) (keyword a) < first_index (words_of text) (keyword b)))
     (extract_keywords text top_n)"
proof -
  let ?items = "most_common top_n (Counter (filtered_of text))"
  let ?fw = "filtered_of text"
  have 1: "sorted_wrt (\<lambda>a b. snd b < snd a
            \<or> (snd a = snd b \<and> first_index ?fw (fst a) < first_index ?fw (fst b))) ?items"
    by (rule most_common_order) (rule Counter_first_occurrence)
  have 2: "\<forall>kc \<in> set ?items. keep (fst kc)"
  proof
    fix kc assume "kc \<in> set ?items"
    with most_common_subset have "(fst kc, snd kc) \<in> set (Counter ?fw)" by fastforce
    then have "fst kc \<in> set ?fw" using Counter_count by blast
    then show "keep (fst kc)" by (simp add: filtered_of_keep)
  qed
  have "sorted_wrt (\<lambda>a b. snd b < snd a
            \<or> (snd a = snd b
               \<and> first_index (words_of text) (fst a) < first_index (words_of text) (fst b)))
          ?items"
    using 1
  proof (rule sorted_wrt_mono_rel [rotated])
    fix a b
    assume a: "a \<in> set ?items" and b: "b \<in> set ?items"
      and ab: "snd b < snd a
            \<or> (snd a = snd b \<and> first_index ?fw (fst a) < first_index ?fw (fst b))"
    from a b 2 have "keep (fst a)" "keep (fst b)" by auto
    then have "first_index ?fw (fst a) < first_index ?fw (fst b)
        \<longleftrightarrow> first_index (words_of text) (fst a) < first_index (words_of text) (fst b)"
      unfolding filtered_of_keep by (rule first_index_filter)
    with ab show "snd b < snd a
            \<or> (snd a = snd b
               \<and> first_index (words_of text) (fst a) < first_index (words_of text) (fst b))"
      by blast
  qed
  then show ?thesis by (simp add: extract_keywords_def sorted_wrt_map)
qed

lemma extract_keywords_length: "length (extract_keywords text top_n) \<le> nat top_n"
  by (simp add: extract_keywords_def most_common_length)

lemma extract_keywords_example:
  "extract_keywords ''the the the cat cat dog'' 2
     = [\<lparr>keyword = ''cat'', count = 2\<rparr>, \<lparr>keyword = ''dog'', count = 1\<rparr>]"
  by code_simp

text \<open>
  C4. For every text and every \<open>top_n\<close>, \<open>extract_keywords\<close> returns at most \<open>top_n\<close>
  records (none when \<open>top_n \<le> 0\<close>), in order of non-increasing count, records of
  equal count in the order in which their keywords first occur among the tokens of the
  text. No keyword is a stop word or has two characters or fewer, and every count is the
  number of tokens equal to the keyword. On \<open>the the the cat cat dog\<close> with
  \<open>top_n = 2\<close> the result is \<open>cat\<close> with count 2, then \<open>dog\<close> with count 1.
\<close>

theorem extract_keywords_ranked:
  "length (extract_keywords text top_n) \<le> nat top_n
   \<and> sorted_wrt (\<lambda>a b. count b \<le> count a) (extract_keywords text top_n)
   \<and> sorted_wrt (\<lambda>a b. count b < count a
         \<or> (count a = count b
             \<and> first_index (words_of text) (keyword a) < first_index (words_of text) (keyword b)))
       (extract_keywords text top_n)
   \<and> (\<forall>r \<in> set (extract_keywords text top_n).
         keyword r \<notin> set STOP_WORDS \<and> 2 < length (keyword r)
         \<and> count r = count_list (words_of text) (keyword r) \<and> 0 < count r)
   \<and> extract_keywords ''the the the cat cat dog'' 2
       = [\<lparr>keyword = ''cat'', count = 2\<rparr>, \<lparr>keyword = ''dog'', count = 1\<rparr>]"
proof -
  have "sorted_wrt (\<lambda>a b. count b \<le> count a) (extract_keywords text top_n)"
    using extract_keywords_order [of "text" top_n]
    by (rule sorted_wrt_mono_rel [rotated]) auto
  moreover have "\<forall>r \<in> set (extract_keywords text top_n).
         keyword r \<notin> set STOP_WORDS \<and> 2 < length (keyword r)
         \<and> count r = count_list (words_of text) (keyword r) \<and> 0 < count r"
  proof
    fix r assume "r \<in> set (extract_keywords text top_n)"
    then have "keep (keyword r) \<and> count r = count_list (words_of text) (keyword r) \<and> 0 < count r"
      by (rule extract_keywords_members)
    then show "keyword r \<notin> set STOP_WORDS \<and> 2 < length (keyword r)
         \<and> count r = count_list (words_of text) (keyword r) \<and> 0 < count r"
      by (simp add: keep_def)
  qed
  ultimately show ?thesis
    using extract_keywords_length extract_keywords_order extract_keywords_example by blast
qed

theorem extract_keywords_ranked_witness:
  "extract_keywords ''dog cat the dog cat'' 5
     = [\<lparr>keyword = ''dog'', count = 2\<rparr>, \<lparr>keyword = ''cat'', count = 2\<rparr>]
   \<and> first_index (words_of ''dog cat the dog cat'') ''dog''
       < first_index (words_of ''dog cat the dog cat'') ''cat''
   \<and> ''dog'' \<notin> set STOP_WORDS \<and> ''cat'' \<notin> set STOP_WORDS
   \<and> count_list (words_of ''dog cat the dog cat'') ''dog'' = 2"
proof -
  have e: "extract_keywords ''dog cat the dog cat'' 5
     = [\<lparr>keyword = ''dog'', count = 2\<rparr>, \<lparr>keyword = ''cat'', count = 2\<rparr>]"
    by code_simp
  show ?thesis
    using extract_keywords_ranked [of "''dog cat the dog cat''" 5]
    unfolding e by simp
qed

section \<open>Properties of the suggestion heuristics\<close>





lemma dict_get_Nil: "dict_get [] k = None"
  by (simp add: dict_get_def)






lemma set_entry: "set (entry b k v) = (if b then {(k, v)} else {})"
  by (simp add: entry_def)














section \<open>Properties of the performance probe\<close>

lemma analyze_performance_raises:
  "session_get url = ProbeRaises exc \<Longrightarrow>
   analyze_performance session_get url
     = [(''status_code'', PInt (- 1)), (''error'', PStr (str_exc exc))]"
  by (simp add: analyze_performance_def)

lemma analyze_performance_response:
  "session_get url = ProbeResponse status body t \<Longrightarrow>
   analyze_performance session_get url
     = [(''status_code'', PInt status),
        (''response_time_seconds'', PFloat (py_round3 t)),
        (''page_size_kb'', PFloat (py_round2 (of_nat (length body) / 1024)))]"
  by (simp add: analyze_performance_def)

lemma analyze_performance_keys:
  "keys (analyze_performance session_get url) =
     (case session_get url of
        ProbeResponse _ _ _ \<Rightarrow> [''status_code'', ''response_time_seconds'', ''page_size_kb'']
      | ProbeRaises _ \<Rightarrow> [''status_code'', ''error''])"
  by (simp add: analyze_performance_def keys_def split: probe_outcome.splits)

text \<open>
  C3, as the code has it. \<open>analyze_performance\<close> returns a dict on every outcome of the
  request and raises nothing. When something raises inside the \<open>try\<close>, the dict is
  \<open>status_code = -1\<close> with \<open>error = str(exc)\<close>, the message of the exception, whatever it
  is; when the body was read, the dict is \<open>status_code\<close>, \<open>response_time_seconds\<close>
  (3 decimals) and \<open>page_size_kb\<close> (bytes / 1024, 2 decimals). The keys are those of one
  shape or of the other, and \<open>error\<close> is a key exactly when something raised.
\<close>

theorem analyze_performance_shapes:
  "(\<forall>exc. session_get url = ProbeRaises exc \<longrightarrow>
      analyze_performance session_get url
        = [(''status_code'', PInt (- 1)), (''error'', PStr (str_exc exc))])
   \<and> (\<forall>status body t. session_get url = ProbeResponse status body t \<longrightarrow>
      analyze_performance session_get url
        = [(''status_code'', PInt status),
           (''response_time_seconds'', PFloat (py_round3 t)),
           (''page_size_kb'', PFloat (py_round2 (of_nat (length body) / 1024)))])
   \<and> (keys (analyze_performance session_get url) = [''status_code'', ''error'']
       \<or> keys (analyze_performance session_get url)
            = [''status_code'', ''response_time_seconds'', ''page_size_kb''])
   \<and> (''error'' \<in> set (keys (analyze_performance session_get url))
        \<longleftrightarrow> (\<exists>exc. session_get url = ProbeRaises exc))"
proof (intro conjI allI impI)
  show "keys (analyze_performance session_get url) = [''status_code'', ''error'']
       \<or> keys (analyze_performance session_get url)
            = [''status_code'', ''response_time_seconds'', ''page_size_kb'']"
    by (simp add: analyze_performance_keys split: probe_outcome.splits)
  show "''error'' \<in> set (keys (analyze_performance session_get url))
        \<longleftrightarrow> (\<exists>exc. session_get url = ProbeRaises exc)"
    by (cases "session_get url") (simp_all add: analyze_performance_keys)
qed (simp_all add: analyze_performance_raises analyze_performance_response)

theorem analyze_performance_shapes_witness:
  "analyze_performance (\<lambda>_. ProbeRaises (Exception ''Cannot connect to host'')) ''http://a.test''
     = [(''status_code'', PInt (- 1)), (''error'', PStr ''Cannot connect to host'')]
   \<and> analyze_performance (\<lambda>_. ProbeResponse 200 (replicate 2048 (CHR ''x'')) (1 / 4)) ''http://a.test''
     = [(''status_code'', PInt 200), (''response_time_seconds'', PFloat (1 / 4)),
        (''page_size_kb'', PFloat 2)]"
proof -
  have r: "py_round3 (1 / 4) = 1 / 4" "py_round2 (2048 / 1024) = 2" by code_simp+
  have a: "analyze_performance (\<lambda>_. ProbeRaises (Exception ''Cannot connect to host'')) ''http://a.test''
     = [(''status_code'', PInt (- 1)), (''error'', PStr (str_exc (Exception ''Cannot connect to host'')))]"
    by (rule analyze_performance_shapes [THEN conjunct1, rule_format]) simp
  have b: "analyze_performance (\<lambda>_. ProbeResponse 200 (replicate 2048 (CHR ''x'')) (1 / 4)) ''http://a.test''
     = [(''status_code'', PInt 200), (''response_time_seconds'', PFloat (py_round3 (1 / 4))),
        (''page_size_kb'', PFloat (py_round2 (of_nat (length (replicate 2048 (CHR ''x''))) / 1024)))]"
    by (rule analyze_performance_shapes [THEN conjunct2, THEN conjunct1, rule_format]) simp
  from a b r show ?thesis by simp
qed

text \<open>The message is not always non-empty: a timeout raises \<open>asyncio.TimeoutError\<close>
  without a message, and the \<open>error\<close> of the result is the empty string.\<close>

theorem analyze_performance_empty_error_counterexample:
  "analyze_performance (\<lambda>_. ProbeRaises TimeoutError) ''https://slow.test''
     = [(''status_code'', PInt (- 1)), (''error'', PStr [])]"
  by (simp add: analyze_performance_def)

section \<open>Properties of the orchestrator\<close>

lemma analyze_url_with_fetch_failed:
  assumes "fetch_content e tk cache url = (Inr None, cache', n)"
  shows "analyze_url_with st e tk cache url
           = ([(''url'', RStr url), (''error'', RStr ''Failed to fetch content from the URL.'')],
              cache', [])"
  using assms by (simp add: analyze_url_with_def)

text \<open>
  C1. For every URL, when \<open>fetch_content\<close> fails (it returns \<open>None\<close>: the request
  raised, the status was an error status, or the page could not be processed),
  \<open>analyze_url\<close> returns the report with exactly the keys \<open>url\<close>, the URL that was
  given, and \<open>error\<close>, a fixed non-empty message; it has no other section and no
  stage was called. This holds for any four stage functions.
\<close>

theorem analyze_url_fetch_failure:
  "fetch_content e tk cache url = (Inr None, cache', n) \<Longrightarrow>
   analyze_url_with st e tk cache url
     = ([(''url'', RStr url), (''error'', RStr ''Failed to fetch content from the URL.'')],
        cache', [])
   \<and> analyze_url ts session_get e tk cache url
     = ([(''url'', RStr url), (''error'', RStr ''Failed to fetch content from the URL.'')],
        cache', [])
   \<and> keys (fst (analyze_url ts session_get e tk cache url)) = [''url'', ''error'']
   \<and> ''Failed to fetch content from the URL.'' \<noteq> []
   \<and> snd (snd (analyze_url ts session_get e tk cache url)) = []"
  by (simp add: analyze_url_def analyze_url_with_fetch_failed keys_def)

lemma fetch_offline:
  "fetch_content offline midnight [] ''https://unreachable.invalid'' = (Inr None, [], 1)"
  by (simp add: fetch_content_def cache_contains_def offline_def)

theorem analyze_url_fetch_failure_witness:
  "analyze_url None (\<lambda>_. ProbeRaises TimeoutError) offline midnight []
       ''https://unreachable.invalid''
     = ([(''url'', RStr ''https://unreachable.invalid''),
         (''error'', RStr ''Failed to fetch content from the URL.'')], [], [])"
  using analyze_url_fetch_failure [OF fetch_offline] by simp

lemma analyze_url_with_fetched:
  assumes "fetch_content e tk cache url = (Inr (Some d), cache', n)"
  shows "analyze_url_with st e tk cache url =
     (case keywords_stage st (content d) of
        Inl exc \<Rightarrow> (unexpected exc [(''url'', RStr url)], cache', [Keywords])
      | Inr kw \<Rightarrow>
     (case readability_stage st (content d) of
        Inl exc \<Rightarrow>
          (unexpected exc [(''url'', RStr url), (''keyword_analysis'', RKeywords kw)],
           cache', [Keywords, Readability])
      | Inr rd \<Rightarrow>
     (case performance_stage st url of
        Inl exc \<Rightarrow>
          (unexpected exc [(''url'', RStr url), (''keyword_analysis'', RKeywords kw),
                           (''readability'', RReadability rd)],
           cache', [Keywords, Readability, Performance])
      | Inr pf \<Rightarrow>
     (case suggestions_stage st (content d) (full_html d) of
        Inl exc \<Rightarrow>
          (unexpected exc [(''url'', RStr url), (''keyword_analysis'', RKeywords kw),
                           (''readability'', RReadability rd),
                           (''performance'', RPerformance pf)],
           cache', [Keywords, Readability, Performance, Suggestions])
      | Inr sg \<Rightarrow>
          ([(''url'', RStr url), (''keyword_analysis'', RKeywords kw),
            (''readability'', RReadability rd), (''performance'', RPerformance pf),
            (''ai_search_optimization'', RSuggestions sg)],
           cache', [Keywords, Readability, Performance, Suggestions])))))"
  using assms by (simp add: analyze_url_with_def Let_def split: sum.splits)

lemma unexpected_new:
  "dict_get report ''error'' = None \<Longrightarrow>
   unexpected exc report = report @ [(''error'', RStr (''Unexpected error: '' @ str_exc exc))]"
  unfolding unexpected_def
  by (induction report) (auto simp: dict_get_def split: if_splits)

text \<open>
  C2. For every URL for which the fetch gives a result, when a later stage raises,
  the stages after it are not called and the report holds \<open>url\<close>, the fields of the
  stages that returned before, with the values they returned, and last a top-level
  \<open>error\<close> string made of \<open>Unexpected error: \<close> and the message of the exception.
  One case for each of the four stages; \<open>analyze_url\<close> is the instance for the stages of
  the repository.
\<close>

theorem analyze_url_stage_failure:
  "fetch_content e tk cache url = (Inr (Some d), cache', n) \<Longrightarrow>
   (keywords_stage st (content d) = Inl exc \<longrightarrow>
      analyze_url_with st e tk cache url
        = ([(''url'', RStr url),
            (''error'', RStr (''Unexpected error: '' @ str_exc exc))],
           cache', [Keywords]))
   \<and> (keywords_stage st (content d) = Inr kw
        \<and> readability_stage st (content d) = Inl exc \<longrightarrow>
      analyze_url_with st e tk cache url
        = ([(''url'', RStr url), (''keyword_analysis'', RKeywords kw),
            (''error'', RStr (''Unexpected error: '' @ str_exc exc))],
           cache', [Keywords, Readability]))
   \<and> (keywords_stage st (content d) = Inr kw
        \<and> readability_stage st (content d) = Inr rd
        \<and> performance_stage st url = Inl exc \<longrightarrow>
      analyze_url_with st e tk cache url
        = ([(''url'', RStr url), (''keyword_analysis'', RKeywords kw),
            (''readability'', RReadability rd),
            (''error'', RStr (''Unexpected error: '' @ str_exc exc))],
           cache', [Keywords, Readability, Performance]))
   \<and> (keywords_stage st (content d) = Inr kw
        \<and> readability_stage st (content d) = Inr rd
        \<and> performance_stage st url = Inr pf
        \<and> suggestions_stage st (content d) (full_html d) = Inl exc \<longrightarrow>
      analyze_url_with st e tk cache url
        = ([(''url'', RStr url), (''keyword_analysis'', RKeywords kw),
            (''readability'', RReadability rd), (''performance'', RPerformance pf),
            (''error'', RStr (''Unexpected error: '' @ str_exc exc))],
           cache', [Keywords, Readability, Performance, Suggestions]))
   \<and> analyze_url ts session_get e tk cache url
        = analyze_url_with (repo_stages ts session_get e) e tk cache url"
  by (simp add: analyze_url_with_fetched unexpected_new dict_get_def analyze_url_def)

lemma fetch_warm:
  "fetch_content offline midnight warm_cache ''https://a.test''
     = (Inr (Some sample_data), warm_cache, 0)"
  by (simp add: fetch_content_def cache_contains_def cache_getitem_def move_to_end_def
      warm_cache_def midnight_def)

lemma sample_readability:
  "compute_readability None ''Hello world.'' = Inr \<lparr>score = 779 / 10, level = ''Fairly easy''\<rparr>"
  by code_simp

lemma sample_keywords:
  "extract_keywords ''Hello world.'' 15
     = [\<lparr>keyword = ''hello'', count = 1\<rparr>, \<lparr>keyword = ''world'', count = 1\<rparr>]"
  by code_simp

theorem analyze_url_stage_failure_witness:
  "analyze_url_with (stub_stages\<lparr>keywords_stage := (\<lambda>_. Inl (Exception ''no keywords''))\<rparr>)
       offline midnight warm_cache ''https://a.test''
     = ([(''url'', RStr ''https://a.test''),
         (''error'', RStr ''Unexpected error: no keywords'')],
        warm_cache, [Keywords])
   \<and> analyze_url_with (stub_stages\<lparr>readability_stage := (\<lambda>_. Inl ZeroDivisionError)\<rparr>)
       offline midnight warm_cache ''https://a.test''
     = ([(''url'', RStr ''https://a.test''), (''keyword_analysis'', RKeywords []),
         (''error'', RStr ''Unexpected error: division by zero'')],
        warm_cache, [Keywords, Readability])
   \<and> analyze_url_with (stub_stages\<lparr>performance_stage := (\<lambda>_. Inl TimeoutError)\<rparr>)
       offline midnight warm_cache ''https://a.test''
     = ([(''url'', RStr ''https://a.test''), (''keyword_analysis'', RKeywords []),
         (''readability'', RReadability \<lparr>score = 100, level = ''Very easy (5th grade)''\<rparr>),
         (''error'', RStr ''Unexpected error: '')],
        warm_cache, [Keywords, Readability, Performance])
   \<and> analyze_url None (\<lambda>_. ProbeRaises TimeoutError) offline midnight warm_cache ''https://a.test''
     = ([(''url'', RStr ''https://a.test''),
         (''keyword_analysis'',
            RKeywords [\<lparr>keyword = ''hello'', count = 1\<rparr>, \<lparr>keyword = ''world'', count = 1\<rparr>]),
         (''readability'', RReadability \<lparr>score = 779 / 10, level = ''Fairly easy''\<rparr>),
         (''performance'', RPerformance [(''status_code'', PInt (- 1)), (''error'', PStr [])]),
         (''error'', RStr ''Unexpected error: markup rejected'')],
        warm_cache, [Keywords, Readability, Performance, Suggestions])"
proof -
  note t = analyze_url_stage_failure [OF fetch_warm]
  have a: "analyze_url_with (stub_stages\<lparr>keywords_stage := (\<lambda>_. Inl (Exception ''no keywords''))\<rparr>)
       offline midnight warm_cache ''https://a.test''
     = ([(''url'', RStr ''https://a.test''),
         (''error'', RStr (''Unexpected error: '' @ str_exc (Exception ''no keywords'')))],
        warm_cache, [Keywords])"
    by (rule t [THEN conjunct1, rule_format]) simp
  have b: "analyze_url_with (stub_stages\<lparr>readability_stage := (\<lambda>_. Inl ZeroDivisionError)\<rparr>)
       offline midnight warm_cache ''https://a.test''
     = ([(''url'', RStr ''https://a.test''), (''keyword_analysis'', RKeywords []),
         (''error'', RStr (''Unexpected error: '' @ str_exc ZeroDivisionError))],
        warm_cache, [Keywords, Readability])"
    by (rule t [THEN conjunct2, THEN conjunct1, rule_format]) (simp add: stub_stages_def)
  have c: "analyze_url_with (stub_stages\<lparr>performance_stage := (\<lambda>_. Inl TimeoutError)\<rparr>)
       offline midnight warm_cache ''https://a.test''
     = ([(''url'', RStr ''https://a.test''), (''keyword_analysis'', RKeywords []),
         (''readability'', RReadability \<lparr>score = 100, level = ''Very easy (5th grade)''\<rparr>),
         (''error'', RStr (''Unexpected error: '' @ str_exc TimeoutError))],
        warm_cache, [Keywords, Readability, Performance])"
    by (rule t [THEN conjunct2, THEN conjunct2, THEN conjunct1, rule_format])
       (simp add: stub_stages_def)
  have d: "analyze_url_with (repo_stages None (\<lambda>_. ProbeRaises TimeoutError) offline)
       offline midnight warm_cache ''https://a.test''
     = ([(''url'', RStr ''https://a.test''),
         (''keyword_analysis'',
            RKeywords [\<lparr>keyword = ''hello'', count = 1\<rparr>, \<lparr>keyword = ''world'', count = 1\<rparr>]),
         (''readability'', RReadability \<lparr>score = 779 / 10, level = ''Fairly easy''\<rparr>),
         (''performance'', RPerformance [(''status_code'', PInt (- 1)), (''error'', PStr [])]),
         (''error'', RStr (''Unexpected error: '' @ str_exc (Exception ''markup rejected'')))],
        warm_cache, [Keywords, Readability, Performance, Suggestions])"
    by (rule t [THEN conjunct2, THEN conjunct2, THEN conjunct2, THEN conjunct1, rule_format])
       (simp add: repo_stages_def sample_data_def sample_readability sample_keywords
          analyze_performance_def analyze_ai_search_factors_def offline_def)
  from a b c d show ?thesis by (simp add: analyze_url_def)
qed

section \<open>Properties of the content fetcher and its cache\<close>






lemma fetch_content_miss:
  assumes "\<not> cache_contains (at_contains tk) cache url"
  shows "fetch_content e tk cache url =
     (case requests_get e url of
        GetRaises exc \<Rightarrow> (Inr None, cache, 1)
      | Response status html_content \<Rightarrow>
          (if 400 \<le> status \<and> status < 600 then (Inr None, cache, 1)
           else (case build_result e html_content of
                   Inl exc \<Rightarrow> (Inr None, cache, 1)
                 | Inr result \<Rightarrow>
                     (Inr (Some result), cache_setitem (at_setitem tk) cache url result, 1))))"
proof (cases "requests_get e url")
  case (Response status html_content)
  with assms show ?thesis
    by (cases "build_result e html_content")
       (simp_all add: fetch_content_def raise_for_status_def)
next
  case (GetRaises exc)
  with assms show ?thesis by (simp add: fetch_content_def)
qed

lemma fetch_content_miss_requests:
  "\<not> cache_contains (at_contains tk) cache url \<Longrightarrow> snd (snd (fetch_content e tk cache url)) = 1"
  by (simp add: fetch_content_miss split: http_outcome.splits sum.splits)

lemma fetch_content_hit_requests:
  "cache_contains (at_contains tk) cache url \<Longrightarrow> snd (snd (fetch_content e tk cache url)) = 0"
  by (simp add: fetch_content_def split: prod.splits sum.splits)

lemma fetch_content_requests_le: "snd (snd (fetch_content e tk cache url)) \<le> 1"
  by (cases "cache_contains (at_contains tk) cache url")
     (simp_all add: fetch_content_miss_requests fetch_content_hit_requests)

















lemma cache_contains_later:
  "\<not> cache_contains t1 c k \<Longrightarrow> t1 \<le> t2 \<Longrightarrow> \<not> cache_contains t2 c k"
  by (auto simp: cache_contains_def split: option.splits)

lemma fetch_content_None_miss:
  assumes "fetch_content e tk cache url = (Inr None, cache', n)"
  shows "\<not> cache_contains (at_contains tk) cache url"
proof
  assume "cache_contains (at_contains tk) cache url"
  with assms show False
    by (auto simp: fetch_content_def split: prod.splits sum.splits)
qed

text \<open>
  C10. When \<open>fetch_content\<close> fails (returns \<open>None\<close>), the cache after the call is the
  cache before it: nothing was added or replaced. The call was a miss and made one
  request, and any later call for the same URL on that cache is a miss again and makes a
  request.
\<close>

theorem failures_not_cached:
  "fetch_content e tk cache url = (Inr None, cache', n) \<Longrightarrow>
   cache' = cache \<and> n = 1
   \<and> \<not> cache_contains (at_contains tk) cache' url
   \<and> (at_contains tk \<le> at_contains tk2 \<longrightarrow>
        snd (snd (fetch_content e2 tk2 cache' url)) = 1)"
proof -
  assume f: "fetch_content e tk cache url = (Inr None, cache', n)"
  then have miss: "\<not> cache_contains (at_contains tk) cache url"
    by (rule fetch_content_None_miss)
  have "snd (snd (fetch_content e tk cache url)) = 1"
    using miss by (rule fetch_content_miss_requests)
  with f have n: "n = 1" by simp
  have c: "cache' = cache"
    using f miss
    by (auto simp: fetch_content_miss split: http_outcome.splits sum.splits if_splits)
  have "snd (snd (fetch_content e2 tk2 cache' url)) = 1" if "at_contains tk \<le> at_contains tk2"
    using cache_contains_later [OF miss that] c by (simp add: fetch_content_miss_requests)
  with n c miss show ?thesis by simp
qed

theorem failures_not_cached_witness:
  "fetch_content offline (at_time 4000) warm_cache ''https://a.test'' = (Inr None, warm_cache, 1)
   \<and> snd (snd (fetch_content online (at_time 4001) warm_cache ''https://a.test'')) = 1"
proof -
  have f: "fetch_content offline (at_time 4000) warm_cache ''https://a.test''
             = (Inr None, warm_cache, 1)"
    by (simp add: fetch_content_def cache_contains_def offline_def warm_cache_def at_time_def)
  have "snd (snd (fetch_content online (at_time 4001) warm_cache ''https://a.test'')) = 1"
    by (rule failures_not_cached [OF f, THEN conjunct2, THEN conjunct2, THEN conjunct2, rule_format])
       (simp add: at_time_def)
  with f show ?thesis by simp
qed

end
